theory Spec2Isabelle
  imports Complex_Main
begin

section \<open>Python values and failures\<close>

text \<open>
  The generators of \<^verbatim>\<open>main.py\<close> pass around Python lists whose elements are
  strings (a bare note letter), floats (a duration) and tuples of those. The
  run-time tests \<^verbatim>\<open>isinstance(note, tuple)\<close> and \<^verbatim>\<open>isinstance(note, str)\<close>
  decide what the code does, so the values keep their dynamic type (the tuple
  test is a \<open>case\<close> on the constructor \<open>Tup\<close>). Every
  duration of the program is one of the literals 0.25, 0.5, 0.75, 1.0, 1.5, 2.0,
  all exact binary fractions on which the generators do no arithmetic:
  a float is modelled by the rational it denotes.
\<close>

datatype pyval = Str string | Flt rat | Tup "pyval list"

datatype pyerr = IndexError | KeyError | ValueError | TypeError | ZeroDivisionError

fun is_str :: "pyval \<Rightarrow> bool" where
  "is_str (Str _) = True"
| "is_str _ = False"

text \<open>Sequencing of fallible steps: the first raised error ends the computation.\<close>

definition ebind :: "pyerr + 'a \<Rightarrow> ('a \<Rightarrow> pyerr + 'b) \<Rightarrow> pyerr + 'b" where
  "ebind m f = (case m of Inl e \<Rightarrow> Inl e | Inr x \<Rightarrow> f x)"

text \<open>A list comprehension whose element expression may raise.\<close>

fun emap :: "('a \<Rightarrow> pyerr + 'b) \<Rightarrow> 'a list \<Rightarrow> pyerr + 'b list" where
  "emap f [] = Inr []"
| "emap f (x # xs) = ebind (f x) (\<lambda>y. ebind (emap f xs) (\<lambda>ys. Inr (y # ys)))"

text \<open>\<^verbatim>\<open>xs[i]\<close>: a negative index counts from the end, anything else out of range raises.\<close>

definition subscript :: "'a list \<Rightarrow> int \<Rightarrow> pyerr + 'a" where
  "subscript xs i =
     (if 0 \<le> i \<and> i < int (length xs) then Inr (xs ! nat i)
      else if i < 0 \<and> - int (length xs) \<le> i then Inr (xs ! nat (int (length xs) + i))
      else Inl IndexError)"

text \<open>\<^verbatim>\<open>xs.index(v)\<close>: the first position holding \<open>v\<close>, ValueError when there is none.\<close>

fun list_index :: "'a list \<Rightarrow> 'a \<Rightarrow> pyerr + int" where
  "list_index [] v = Inl ValueError"
| "list_index (x # xs) v =
     (if x = v then Inr 0 else ebind (list_index xs v) (\<lambda>i. Inr (i + 1)))"

text \<open>\<^verbatim>\<open>a % b\<close> on Python ints: the result has the sign of \<open>b\<close>, as HOL's \<open>mod\<close> on \<open>int\<close>.\<close>

definition py_mod :: "int \<Rightarrow> int \<Rightarrow> pyerr + int" where
  "py_mod a b = (if b = 0 then Inl ZeroDivisionError else Inr (a mod b))"

text \<open>\<^verbatim>\<open>d[k]\<close> on a dict literal, kept as the association list the source writes.\<close>

definition dict_item :: "('k \<times> 'v) list \<Rightarrow> 'k \<Rightarrow> pyerr + 'v" where
  "dict_item d k = (case map_of d k of None \<Rightarrow> Inl KeyError | Some v \<Rightarrow> Inr v)"

text \<open>
  \<^verbatim>\<open>random.choice(seq)\<close> raises IndexError on an empty sequence and otherwise
  returns \<^verbatim>\<open>seq[i]\<close> for an index \<open>i\<close> below \<^verbatim>\<open>len(seq)\<close> drawn from the
  module's generator. The generator is a parameter: a state \<open>g\<close> and a function
  \<open>rb\<close> with \<open>rb n g\<close> the number drawn below \<open>n\<close> and the state after the draw.
  The draw is reduced modulo the length, which is the library's guarantee that
  the index is in range.
\<close>

definition choice :: "(nat \<Rightarrow> 'g \<Rightarrow> nat \<times> 'g) \<Rightarrow> 'a list \<Rightarrow> 'g \<Rightarrow> pyerr + ('a \<times> 'g)" where
  "choice rb xs g =
     (if xs = [] then Inl IndexError
      else (case rb (length xs) g of (i, g') \<Rightarrow> Inr (xs ! (i mod length xs), g')))"

section \<open>Constants\<close>

definition MELODY_LENGTH :: nat where
  "MELODY_LENGTH = 64"

section \<open>MusicScale\<close>

definition scales :: "(string \<times> int list) list" where
  "scales =
     [(''major'', [0, 2, 4, 5, 7, 9, 11]),
      (''minor'', [0, 2, 3, 5, 7, 8, 10]),
      (''dorian'', [0, 2, 3, 5, 7, 9, 10]),
      (''mixolydian'', [0, 2, 4, 5, 7, 9, 10])]"

text \<open>\<^verbatim>\<open>self.notes\<close> of the scale object (\<open>notes\<close> is a keyword of the prover).\<close>

definition scale_notes :: "string list" where
  "scale_notes = [''C'', ''D'', ''E'', ''F'', ''G'', ''A'', ''B'']"

text \<open>\<^verbatim>\<open>self.scales.get(scale, [])\<close>\<close>

definition get_scale_degrees :: "string \<Rightarrow> int list" where
  "get_scale_degrees scale = (case map_of scales scale of None \<Rightarrow> [] | Some ds \<Rightarrow> ds)"

section \<open>ChordProgressionGenerator\<close>

definition chord_progressions :: "string list list" where
  "chord_progressions =
     [[''I'', ''IV'', ''V''],
      [''ii'', ''V'', ''I''],
      [''vi'', ''IV'', ''I'', ''V''],
      [''ii'', ''V'', ''I'', ''IV''],
      [''I'', ''iii'', ''IV'', ''ii'', ''V'', ''vi'']]"

definition chord_symbols_to_degrees :: "(string \<times> int) list" where
  "chord_symbols_to_degrees =
     [(''I'', 0), (''ii'', 1), (''iii'', 2), (''IV'', 3), (''V'', 4), (''vi'', 5), (''vii'', 6)]"

text \<open>The scale argument is accepted and not used.\<close>

definition generate_chord_progression ::
  "(nat \<Rightarrow> 'g \<Rightarrow> nat \<times> 'g) \<Rightarrow> string \<Rightarrow> 'g \<Rightarrow> pyerr + (string list \<times> 'g)" where
  "generate_chord_progression rb scale g = choice rb chord_progressions g"

definition get_harmonic_notes :: "string \<Rightarrow> string \<Rightarrow> pyerr + string list" where
  "get_harmonic_notes chord_symbol scale =
     ebind (dict_item chord_symbols_to_degrees chord_symbol) (\<lambda>chord_degree.
       emap (\<lambda>degree. ebind (py_mod (chord_degree + degree) (int (length scale_notes))) (subscript scale_notes))
         (get_scale_degrees scale))"

section \<open>RetroGameMelodyGenerator\<close>

definition note_durations :: "rat list" where
  "note_durations = [1 / 4, 1 / 2, 3 / 4, 1, 3 / 2, 2]"

text \<open>
  The body of \<^verbatim>\<open>for _ in range(MELODY_LENGTH - 1)\<close>, run \<open>n\<close> more times from the
  current degree, generator state and melody built so far.
\<close>

fun melody_loop ::
  "(nat \<Rightarrow> 'g \<Rightarrow> nat \<times> 'g) \<Rightarrow> string list \<Rightarrow> int list \<Rightarrow> nat \<Rightarrow> int \<Rightarrow> 'g \<Rightarrow> pyval list
     \<Rightarrow> pyerr + (pyval list \<times> 'g)" where
  "melody_loop rb chord_progression scale_degrees 0 current_degree g melody = Inr (melody, g)"
| "melody_loop rb chord_progression scale_degrees (Suc n) current_degree g melody =
     ebind (choice rb chord_progression g) (\<lambda>(chord_symbol, g1).
     ebind (dict_item chord_symbols_to_degrees chord_symbol) (\<lambda>chord_degree.
     ebind (choice rb ([1, 2, 3, 4, 5, 6] @ (if chord_degree \<in> set [0, 3, 4, 6] then [6, 7, 8] else [])) g1)
       (\<lambda>(step, g2).
     ebind (py_mod (current_degree + step) (int (length scale_degrees))) (\<lambda>next_degree.
     ebind (choice rb note_durations g2) (\<lambda>(note_duration, g3).
     ebind (subscript scale_notes next_degree) (\<lambda>letter.
       melody_loop rb chord_progression scale_degrees n next_degree g3
         (melody @ [Tup [Str letter, Flt note_duration]])))))))"

definition generate_melody ::
  "(nat \<Rightarrow> 'g \<Rightarrow> nat \<times> 'g) \<Rightarrow> string list \<Rightarrow> string \<Rightarrow> 'g \<Rightarrow> pyerr + (pyval list \<times> 'g)" where
  "generate_melody rb chord_progression scale g =
     (let scale_degrees = get_scale_degrees scale in
      ebind (choice rb scale_degrees g) (\<lambda>(current_degree, g1).
      ebind (py_mod current_degree (int (length scale_notes))) (\<lambda>k.
      ebind (subscript scale_notes k) (\<lambda>letter.
        melody_loop rb chord_progression scale_degrees (MELODY_LENGTH - 1) current_degree g1
          [Str letter]))))"

section \<open>RetroGameHarmonyGenerator\<close>

text \<open>One element of either list comprehension of \<^verbatim>\<open>generate_harmony\<close>, for its offset (2 or 4).\<close>

definition harmony_event :: "string list \<Rightarrow> int \<Rightarrow> pyval \<Rightarrow> pyerr + pyval" where
  "harmony_event harmonic_notes offset note =
     (case note of
        Tup items \<Rightarrow>
          ebind (subscript items 0) (\<lambda>first.
          ebind (list_index (map Str scale_notes) first) (\<lambda>idx.
          ebind (py_mod (idx + offset) (int (length harmonic_notes))) (\<lambda>k.
          ebind (subscript harmonic_notes k) (\<lambda>h.
            Inr (Tup [Str h, Flt (1 / 4)])))))
      | _ \<Rightarrow> Inr (Tup [note, Flt (1 / 4)]))"

definition generate_harmony :: "pyval list \<Rightarrow> string list \<Rightarrow> string \<Rightarrow> pyerr + pyval list" where
  "generate_harmony melody chord_progression scale =
     ebind (emap (\<lambda>chord_symbol. get_harmonic_notes chord_symbol scale) chord_progression)
       (\<lambda>chord_notes.
     ebind (emap (harmony_event (concat chord_notes) 2) melody) (\<lambda>first_pass.
     ebind (emap (harmony_event (concat chord_notes) 4) melody) (\<lambda>second_pass.
       Inr (first_pass @ second_pass))))"

section \<open>RetroGameBassGenerator\<close>

text \<open>
  \<^verbatim>\<open>for note, duration in melody\<close> unpacks every entry into exactly two values:
  a tuple of two items, or a string of two characters; any other tuple or
  string raises ValueError and a float, which is not iterable, TypeError.
\<close>

fun unpack_pair :: "pyval \<Rightarrow> pyerr + (pyval \<times> pyval)" where
  "unpack_pair (Tup [a, b]) = Inr (a, b)"
| "unpack_pair (Tup _) = Inl ValueError"
| "unpack_pair (Str [c, d]) = Inr (Str [c], Str [d])"
| "unpack_pair (Str _) = Inl ValueError"
| "unpack_pair (Flt _) = Inl TypeError"

text \<open>The body of the loop of \<^verbatim>\<open>generate_bass\<close> for one entry of the melody.\<close>

definition bass_event :: "int list \<Rightarrow> pyval \<Rightarrow> pyerr + pyval" where
  "bass_event scale_degrees entry =
     ebind (unpack_pair entry) (\<lambda>(note, duration).
       (case note of
          Tup items \<Rightarrow>
            ebind (subscript items 0) (\<lambda>first.
            ebind (list_index (map Str scale_notes) first) (\<lambda>note_degree.
            ebind (py_mod (note_degree - 9) (int (length scale_degrees))) (\<lambda>bass_note_degree.
            ebind (subscript scale_degrees bass_note_degree) (\<lambda>degree_value.
            ebind (subscript scale_notes degree_value) (\<lambda>bass_note.
              Inr (Tup [Str bass_note, duration]))))))
        | _ \<Rightarrow> Inr (Tup [note, duration])))"

definition generate_bass :: "pyval list \<Rightarrow> string \<Rightarrow> pyerr + pyval list" where
  "generate_bass melody scale = emap (bass_event (get_scale_degrees scale)) melody"

section \<open>RetroGameMusicGenerator\<close>

text \<open>\<^verbatim>\<open>self.duration\<close>\<close>

definition duration :: rat where
  "duration = 1 / 4"

text \<open>\<^verbatim>\<open>(note, self.duration) if isinstance(note, str) else note\<close>\<close>

definition normalize :: "pyval \<Rightarrow> pyval" where
  "normalize note = (if is_str note then Tup [note, Flt duration] else note)"

text \<open>The statements inside \<^verbatim>\<open>try\<close>.\<close>

definition generate_music_body ::
  "(nat \<Rightarrow> 'g \<Rightarrow> nat \<times> 'g) \<Rightarrow> string \<Rightarrow> 'g \<Rightarrow> pyerr + (pyval list \<times> pyval list \<times> pyval list)" where
  "generate_music_body rb scale g =
     ebind (generate_chord_progression rb scale g) (\<lambda>(chord_progression, g1).
     ebind (generate_melody rb chord_progression scale g1) (\<lambda>(generated, g2).
     ebind (generate_harmony (map normalize generated) chord_progression scale) (\<lambda>harmony.
     ebind (generate_bass (map normalize generated) scale) (\<lambda>bass.
       Inr (map normalize generated, harmony, bass)))))"

text \<open>
  \<^verbatim>\<open>except Exception\<close> logs and returns \<^verbatim>\<open>None, None, None\<close>; the log is not
  part of the result.
\<close>

definition generate_music ::
  "(nat \<Rightarrow> 'g \<Rightarrow> nat \<times> 'g) \<Rightarrow> string \<Rightarrow> 'g
     \<Rightarrow> pyval list option \<times> pyval list option \<times> pyval list option" where
  "generate_music rb scale g =
     (case generate_music_body rb scale g of
        Inl e \<Rightarrow> (None, None, None)
      | Inr (melody, harmony, bass) \<Rightarrow> (Some melody, Some harmony, Some bass))"

section \<open>Shapes of melody entries\<close>

text \<open>An entry that is a pair of a note letter (a string) and a duration (a float).\<close>

fun letter_duration_pair :: "pyval \<Rightarrow> bool" where
  "letter_duration_pair (Tup [Str l, Flt d]) = True"
| "letter_duration_pair _ = False"

text \<open>
  An entry as the loop of \<^verbatim>\<open>generate_melody\<close> is meant to append it: a letter of
  the seven-letter alphabet with a duration of the fixed list.
\<close>

fun melody_pair :: "pyval \<Rightarrow> bool" where
  "melody_pair (Tup [Str l, Flt d]) = (l \<in> set scale_notes \<and> d \<in> set note_durations)"
| "melody_pair _ = False"

section \<open>A concrete random source\<close>

text \<open>
  A small linear congruential generator, for running the generators on
  concrete inputs: the draw below \<open>n\<close> is the state modulo \<open>n\<close>.
\<close>

definition lcg :: "nat \<Rightarrow> nat \<Rightarrow> nat \<times> nat" where
  "lcg n g = (g mod n, (g * 5 + 3) mod 64)"

section \<open>The harmony of the specification\<close>

text \<open>
  Section 4.4 of the specification in its own words, to compare with
  \<^verbatim>\<open>generate_harmony\<close>: \<open>indexOf\<close> in the note alphabet, the degree index of a
  chord symbol, the harmonic notes of a symbol, the pool of a progression, the
  event one melody entry contributes for an offset, and the two passes.
\<close>

fun spec_indexOf :: "string \<Rightarrow> string list \<Rightarrow> int" where
  "spec_indexOf letter [] = 0"
| "spec_indexOf letter (x # xs) = (if x = letter then 0 else 1 + spec_indexOf letter xs)"

definition spec_degreeIndexOf :: "string \<Rightarrow> int" where
  "spec_degreeIndexOf symbol =
     (if symbol = ''I'' then 0 else if symbol = ''ii'' then 1 else if symbol = ''iii'' then 2
      else if symbol = ''IV'' then 3 else if symbol = ''V'' then 4 else if symbol = ''vi'' then 5
      else 6)"

definition spec_harmonicNotes :: "string \<Rightarrow> string \<Rightarrow> string list" where
  "spec_harmonicNotes symbol scaleName =
     map (\<lambda>g. scale_notes ! nat ((spec_degreeIndexOf symbol + g) mod 7)) (get_scale_degrees scaleName)"

definition spec_pool :: "string list \<Rightarrow> string \<Rightarrow> string list" where
  "spec_pool progression scaleName =
     concat (map (\<lambda>symbol. spec_harmonicNotes symbol scaleName) progression)"

fun spec_harmony_event :: "string list \<Rightarrow> int \<Rightarrow> pyval \<Rightarrow> pyval" where
  "spec_harmony_event pool offset (Tup [Str letter, d]) =
     Tup [Str (pool ! nat ((spec_indexOf letter scale_notes + offset) mod int (length pool))),
          Flt (1 / 4)]"
| "spec_harmony_event pool offset e = Tup [e, Flt (1 / 4)]"

definition spec_harmony :: "pyval list \<Rightarrow> string list \<Rightarrow> string \<Rightarrow> pyval list" where
  "spec_harmony melody progression scaleName =
     map (spec_harmony_event (spec_pool progression scaleName) 2) melody @
     map (spec_harmony_event (spec_pool progression scaleName) 4) melody"

text \<open>
  A melody entry of the data model: a bare letter, or a pair of a letter of the
  alphabet and a duration.
\<close>

fun melody_entry :: "pyval \<Rightarrow> bool" where
  "melody_entry (Str l) = True"
| "melody_entry (Tup [Str l, Flt d]) = (l \<in> set scale_notes)"
| "melody_entry _ = False"

section \<open>Facts about the helpers\<close>

lemma ebind_Inr [simp]: "ebind (Inr x) f = f x"
  by (simp add: ebind_def)

lemma ebind_Inl [simp]: "ebind (Inl e) f = Inl e"
  by (simp add: ebind_def)

lemma length_scale_notes [simp]: "length scale_notes = 7"
  by (simp add: scale_notes_def)

lemma subscript_in_range: "0 \<le> i \<Longrightarrow> i < int (length xs) \<Longrightarrow> subscript xs i = Inr (xs ! nat i)"
  by (simp add: subscript_def)

lemma choice_Nil: "choice rb [] g = Inl IndexError"
  by (simp add: choice_def)

lemma choice_Inr:
  "xs \<noteq> [] \<Longrightarrow>
     choice rb xs g = Inr (xs ! (fst (rb (length xs) g) mod length xs), snd (rb (length xs) g))"
  by (simp add: choice_def split: prod.split)

lemma get_scale_degrees_unknown:
  "scale \<notin> {''major'', ''minor'', ''dorian'', ''mixolydian''} \<Longrightarrow> get_scale_degrees scale = []"
  by (auto simp: get_scale_degrees_def scales_def)

lemma get_scale_degrees_known:
  "scale \<in> {''major'', ''minor'', ''dorian'', ''mixolydian''} \<Longrightarrow>
     length (get_scale_degrees scale) = 7 \<and> get_scale_degrees scale ! 4 = 7"
  by (auto simp: get_scale_degrees_def scales_def)

section \<open>Scale degrees\<close>

text \<open>
  C9. \<^verbatim>\<open>get_scale_degrees\<close> returns exactly seven integers, each between 0 and 11,
  for each of the names major, minor, dorian and mixolydian, and the empty
  list for every other name. The model's function is total: no lookup raises.
\<close>

theorem get_scale_degrees_shape:
  "(scale \<in> {''major'', ''minor'', ''dorian'', ''mixolydian''} \<longrightarrow>
      length (get_scale_degrees scale) = 7 \<and>
      (\<forall>d \<in> set (get_scale_degrees scale). 0 \<le> d \<and> d \<le> 11)) \<and>
   (scale \<notin> {''major'', ''minor'', ''dorian'', ''mixolydian''} \<longrightarrow>
      get_scale_degrees scale = [])"
  by (auto simp: get_scale_degrees_def scales_def)

theorem get_scale_degrees_shape_witness:
  "length (get_scale_degrees ''dorian'') = 7 \<and>
   list_all (\<lambda>d. 0 \<le> d \<and> d \<le> 11) (get_scale_degrees ''dorian'') \<and>
   get_scale_degrees ''lydian'' = []"
  using get_scale_degrees_shape [of "''dorian''"] get_scale_degrees_shape [of "''lydian''"]
  by (simp add: list_all_iff)

section \<open>Harmonic notes\<close>

text \<open>
  C4, as the code has it. For the symbol I and the scale major the harmonic
  notes are the letters at the indices (0 + g) mod 7 for g in 0, 2, 4, 5, 7, 9, 11,
  that is C, E, G, A, C, E, G.
\<close>

theorem get_harmonic_notes_I_major:
  "get_harmonic_notes ''I'' ''major'' = Inr [''C'', ''E'', ''G'', ''A'', ''C'', ''E'', ''G'']"
  by (simp add: get_harmonic_notes_def dict_item_def chord_symbols_to_degrees_def
      get_scale_degrees_def scales_def py_mod_def subscript_def scale_notes_def)

text \<open>C4, as the specification states it: the result is not the plain scale C, D, E, F, G, A, B.\<close>

theorem get_harmonic_notes_I_major_not_diatonic:
  "get_harmonic_notes ''I'' ''major'' \<noteq> Inr [''C'', ''D'', ''E'', ''F'', ''G'', ''A'', ''B'']"
  by (simp add: get_harmonic_notes_def dict_item_def chord_symbols_to_degrees_def
      get_scale_degrees_def scales_def py_mod_def subscript_def scale_notes_def)

section \<open>The bass line\<close>

lemma bass_event_pair: "letter_duration_pair e \<Longrightarrow> bass_event ds e = Inr e"
  by (cases e rule: letter_duration_pair.cases) (simp_all add: bass_event_def)

lemma emap_bass_event_pairs:
  "list_all letter_duration_pair melody \<Longrightarrow> emap (bass_event ds) melody = Inr melody"
  by (induction melody) (simp_all add: bass_event_pair)

text \<open>
  C2. On a melody made only of (letter, duration) pairs \<^verbatim>\<open>generate_bass\<close> returns
  the melody itself, every letter and every duration unchanged: after
  \<^verbatim>\<open>for note, duration in melody\<close> the name \<^verbatim>\<open>note\<close> is bound to the letter, a
  string, so \<^verbatim>\<open>isinstance(note, tuple)\<close> is false and the entry is appended as
  it came.
\<close>

theorem generate_bass_returns_melody:
  "list_all letter_duration_pair melody \<Longrightarrow> generate_bass melody scale = Inr melody"
  by (simp add: generate_bass_def emap_bass_event_pairs)

theorem generate_bass_returns_melody_witness:
  "generate_bass [Tup [Str ''C'', Flt (1 / 4)], Tup [Str ''G'', Flt 2]] ''minor''
     = Inr [Tup [Str ''C'', Flt (1 / 4)], Tup [Str ''G'', Flt 2]]"
  using generate_bass_returns_melody [of "[Tup [Str ''C'', Flt (1 / 4)], Tup [Str ''G'', Flt 2]]" "''minor''"]
  by simp

text \<open>
  C1 asks for the transposed letter. On the melody [(E, 0.5)] in major the
  letter E has index 2, (2 - 9) mod 7 = 0, the degree value there is 0 and the
  letter at 0 is C, so the bass event of the claim is (C, 0.5); the code
  returns (E, 0.5).
\<close>

theorem generate_bass_keeps_letter_E:
  "generate_bass [Tup [Str ''E'', Flt (1 / 2)]] ''major'' = Inr [Tup [Str ''E'', Flt (1 / 2)]] \<and>
   list_index scale_notes ''E'' = Inr 2 \<and>
   scale_notes ! nat (get_scale_degrees ''major'' ! nat ((2 - 9) mod 7)) = ''C''"
  by (simp add: generate_bass_def bass_event_def scale_notes_def get_scale_degrees_def scales_def)

lemma list_index_B: "list_index (map Str scale_notes) (Str ''B'') = Inr 6"
  by (simp add: scale_notes_def)

text \<open>
  The transposition branch as it is written, on an entry that does reach it
  (one whose note component is itself a tuple): for the letter B and every
  built-in scale the degree value is 7 and the direct indexing of the seven
  letters raises IndexError.
\<close>

lemma bass_event_transposition_IndexError:
  assumes known: "scale \<in> {''major'', ''minor'', ''dorian'', ''mixolydian''}"
  shows "bass_event (get_scale_degrees scale) (Tup [Tup (Str ''B'' # rest), d]) = Inl IndexError"
proof -
  have out: "subscript scale_notes 7 = Inl IndexError"
    by (simp add: subscript_def)
  show ?thesis
    using get_scale_degrees_known [OF known]
    by (simp add: bass_event_def subscript_in_range list_index_B py_mod_def out)
qed

text \<open>
  C3 asks for an IndexError on real melodies, for every built-in scale. The
  entry (B, 0.5) is one the derivation of the claim fails on in each of the
  four scales: the letter B has index 6, (6 - 9) mod 7 = 4, the degree value at
  4 is 7, and the seven letters have no index 7. The code never gets there: on
  the melody [(B, 0.5)] it raises nothing and returns the entry as it came, in
  all four scales.
\<close>

theorem generate_bass_B_no_IndexError:
  "list_index scale_notes ''B'' = Inr 6 \<and>
   subscript (get_scale_degrees ''major'') ((6 - 9) mod 7) = Inr 7 \<and>
   subscript (get_scale_degrees ''minor'') ((6 - 9) mod 7) = Inr 7 \<and>
   subscript (get_scale_degrees ''dorian'') ((6 - 9) mod 7) = Inr 7 \<and>
   subscript (get_scale_degrees ''mixolydian'') ((6 - 9) mod 7) = Inr 7 \<and>
   subscript scale_notes 7 = Inl IndexError \<and>
   generate_bass [Tup [Str ''B'', Flt (1 / 2)]] ''major'' = Inr [Tup [Str ''B'', Flt (1 / 2)]] \<and>
   generate_bass [Tup [Str ''B'', Flt (1 / 2)]] ''minor'' = Inr [Tup [Str ''B'', Flt (1 / 2)]] \<and>
   generate_bass [Tup [Str ''B'', Flt (1 / 2)]] ''dorian'' = Inr [Tup [Str ''B'', Flt (1 / 2)]] \<and>
   generate_bass [Tup [Str ''B'', Flt (1 / 2)]] ''mixolydian'' = Inr [Tup [Str ''B'', Flt (1 / 2)]]"
proof -
  have idx: "list_index scale_notes ''B'' = Inr 6"
    by (simp add: scale_notes_def)
  have deg: "subscript (get_scale_degrees scale) ((6 - 9) mod 7) = Inr 7"
    if "scale \<in> {''major'', ''minor'', ''dorian'', ''mixolydian''}" for scale
    using get_scale_degrees_known [OF that] by (simp add: subscript_def)
  have out: "subscript scale_notes 7 = Inl IndexError"
    by (simp add: subscript_def)
  have bass: "generate_bass [Tup [Str ''B'', Flt (1 / 2)]] scale = Inr [Tup [Str ''B'', Flt (1 / 2)]]"
    for scale
    by (simp add: generate_bass_def bass_event_pair)
  show ?thesis
    using idx deg [of "''major''"] deg [of "''minor''"] deg [of "''dorian''"]
      deg [of "''mixolydian''"] out bass
    by simp
qed

section \<open>The melody\<close>

lemma choice_mem:
  "xs \<noteq> [] \<Longrightarrow> \<exists>x g'. choice rb xs g = Inr (x, g') \<and> x \<in> set xs"
  by (simp add: choice_Inr)

lemma dict_item_chord_symbol:
  "s \<in> fst ` set chord_symbols_to_degrees \<Longrightarrow> \<exists>d. dict_item chord_symbols_to_degrees s = Inr d"
  by (auto simp: dict_item_def chord_symbols_to_degrees_def)

lemma scale_notes_nth_mem: "0 \<le> k \<Longrightarrow> k < 7 \<Longrightarrow> scale_notes ! nat k \<in> set scale_notes"
  by (rule nth_mem) simp

text \<open>
  The loop never raises when the progression is not empty, holds only chord
  symbols of the table and the scale has seven degrees; \<open>n\<close> iterations append
  \<open>n\<close> well-formed pairs to the melody.
\<close>

lemma melody_loop_shape:
  assumes cp: "cp \<noteq> []" "set cp \<subseteq> fst ` set chord_symbols_to_degrees"
    and ds: "length ds = 7"
  shows "\<exists>new g'. melody_loop rb cp ds n cur g acc = Inr (acc @ new, g') \<and>
           length new = n \<and> list_all melody_pair new"
proof (induction n arbitrary: cur g acc)
  case 0
  show ?case by simp
next
  case (Suc n)
  obtain sym g1 where c1: "choice rb cp g = Inr (sym, g1)" and sym: "sym \<in> set cp"
    using choice_mem [OF cp(1), of rb g] by blast
  obtain cd where d1: "dict_item chord_symbols_to_degrees sym = Inr cd"
    using dict_item_chord_symbol sym cp(2) by blast
  let ?steps = "[1, 2, 3, 4, 5, 6] @ (if cd \<in> set [0, 3, 4, 6] then [6, 7, 8] else []) :: int list"
  have "?steps \<noteq> []" by simp
  then obtain step g2 where c2: "choice rb ?steps g1 = Inr (step, g2)"
    using choice_mem [of ?steps rb g1] by blast
  let ?k = "(cur + step) mod 7"
  have m: "py_mod (cur + step) (int (length ds)) = Inr ?k"
    by (simp add: py_mod_def ds)
  have k: "0 \<le> ?k" "?k < 7" by simp_all
  have "note_durations \<noteq> []" by (simp add: note_durations_def)
  then obtain dur g3 where c3: "choice rb note_durations g2 = Inr (dur, g3)"
    and dur: "dur \<in> set note_durations"
    using choice_mem [of note_durations rb g2] by blast
  have s: "subscript scale_notes ?k = Inr (scale_notes ! nat ?k)"
    using k by (simp add: subscript_in_range)
  let ?e = "Tup [Str (scale_notes ! nat ?k), Flt dur]"
  have e: "melody_pair ?e"
    using scale_notes_nth_mem [OF k] dur by simp
  obtain new g' where ih: "melody_loop rb cp ds n ?k g3 (acc @ [?e]) = Inr ((acc @ [?e]) @ new, g')"
    and new: "length new = n" "list_all melody_pair new"
    using Suc.IH [of ?k g3 "acc @ [?e]"] by blast
  have "melody_loop rb cp ds (Suc n) cur g acc = Inr (acc @ (?e # new), g')"
    using c1 d1 c2 m c3 s ih by simp
  moreover have "length (?e # new) = Suc n" using new by simp
  moreover have "list_all melody_pair (?e # new)" using e new by simp
  ultimately show ?case by blast
qed

lemma catalog_progression:
  "cp \<in> set chord_progressions \<Longrightarrow> cp \<noteq> [] \<and> set cp \<subseteq> fst ` set chord_symbols_to_degrees"
  by (auto simp: chord_progressions_def chord_symbols_to_degrees_def)

lemma generate_melody_general:
  assumes cp: "cp \<noteq> []" "set cp \<subseteq> fst ` set chord_symbols_to_degrees"
    and known: "scale \<in> {''major'', ''minor'', ''dorian'', ''mixolydian''}"
  shows "\<exists>d g1 rest g'.
           choice rb (get_scale_degrees scale) g = Inr (d, g1) \<and>
           d \<in> set (get_scale_degrees scale) \<and>
           generate_melody rb cp scale g = Inr (Str (scale_notes ! nat (d mod 7)) # rest, g') \<and>
           length rest = 63 \<and> list_all melody_pair rest"
proof -
  have len: "length (get_scale_degrees scale) = 7"
    using get_scale_degrees_known [OF known] by simp
  then have "get_scale_degrees scale \<noteq> []" by auto
  then obtain d g1 where c: "choice rb (get_scale_degrees scale) g = Inr (d, g1)"
    and d: "d \<in> set (get_scale_degrees scale)"
    using choice_mem [of "get_scale_degrees scale" rb g] by blast
  have m: "py_mod d (int (length scale_notes)) = Inr (d mod 7)"
    by (simp add: py_mod_def)
  have s: "subscript scale_notes (d mod 7) = Inr (scale_notes ! nat (d mod 7))"
    by (simp add: subscript_in_range)
  obtain rest g' where l: "melody_loop rb cp (get_scale_degrees scale) 63 d g1
        [Str (scale_notes ! nat (d mod 7))] = Inr ([Str (scale_notes ! nat (d mod 7))] @ rest, g')"
    and rest: "length rest = 63" "list_all melody_pair rest"
    using melody_loop_shape [OF cp len, of rb 63 d g1 "[Str (scale_notes ! nat (d mod 7))]"] by blast
  have "generate_melody rb cp scale g = Inr (Str (scale_notes ! nat (d mod 7)) # rest, g')"
    using c m s l by (simp add: generate_melody_def MELODY_LENGTH_def)
  with c d rest show ?thesis by blast
qed

text \<open>
  C5. For every progression of the fixed catalog and every known scale name
  \<^verbatim>\<open>generate_melody\<close> returns, whatever the random source, exactly 64 events:
  the first is the bare letter at index \<open>d mod 7\<close>, where \<open>d\<close> is the degree value
  of the first draw, and each of the other 63 is a (letter, duration) pair with
  the letter in the seven-letter alphabet and the duration in the fixed list.
\<close>

theorem generate_melody_shape:
  assumes "cp \<in> set chord_progressions"
    and "scale \<in> {''major'', ''minor'', ''dorian'', ''mixolydian''}"
  shows "\<exists>d g1 rest g'.
           choice rb (get_scale_degrees scale) g = Inr (d, g1) \<and>
           generate_melody rb cp scale g = Inr (Str (scale_notes ! nat (d mod 7)) # rest, g') \<and>
           length (Str (scale_notes ! nat (d mod 7)) # rest) = 64 \<and>
           list_all melody_pair rest"
  using generate_melody_general [of cp scale rb g] catalog_progression [of cp] assms
  by fastforce

theorem generate_melody_shape_witness:
  "\<exists>rest g'.
     choice lcg (get_scale_degrees ''minor'') 2 = Inr (3, 13) \<and>
     generate_melody lcg [''I'', ''IV'', ''V''] ''minor'' 2 = Inr (Str ''F'' # rest, g') \<and>
     length (Str ''F'' # rest) = 64 \<and>
     list_all melody_pair rest"
proof -
  have c: "choice lcg (get_scale_degrees ''minor'') 2 = Inr (3, 13)"
    by (simp add: choice_def lcg_def get_scale_degrees_def scales_def)
  have f: "scale_notes ! nat (3 mod 7) = ''F''"
    by (simp add: scale_notes_def)
  show ?thesis
    using generate_melody_shape [of "[''I'', ''IV'', ''V'']" "''minor''" lcg 2] c f
    by (simp add: chord_progressions_def)
qed

section \<open>The harmony\<close>

lemma emap_total: "(\<And>x. x \<in> set xs \<Longrightarrow> f x = Inr (h x)) \<Longrightarrow> emap f xs = Inr (map h xs)"
  by (induction xs) simp_all

lemma dict_item_spec_degreeIndexOf:
  "s \<in> fst ` set chord_symbols_to_degrees \<Longrightarrow>
     dict_item chord_symbols_to_degrees s = Inr (spec_degreeIndexOf s)"
  by (auto simp: dict_item_def chord_symbols_to_degrees_def spec_degreeIndexOf_def)

lemma get_harmonic_notes_spec:
  assumes "s \<in> fst ` set chord_symbols_to_degrees"
  shows "get_harmonic_notes s scale = Inr (spec_harmonicNotes s scale)"
proof -
  have "\<And>g. ebind (py_mod (spec_degreeIndexOf s + g) (int (length scale_notes))) (subscript scale_notes)
          = Inr (scale_notes ! nat ((spec_degreeIndexOf s + g) mod 7))"
    by (simp add: py_mod_def subscript_in_range)
  then show ?thesis
    by (simp add: get_harmonic_notes_def dict_item_spec_degreeIndexOf [OF assms]
        spec_harmonicNotes_def emap_total)
qed

lemma pool_spec:
  assumes "set cp \<subseteq> fst ` set chord_symbols_to_degrees"
  shows "emap (\<lambda>chord_symbol. get_harmonic_notes chord_symbol scale) cp
           = Inr (map (\<lambda>symbol. spec_harmonicNotes symbol scale) cp)"
  using assms by (intro emap_total get_harmonic_notes_spec) auto

lemma length_spec_pool:
  "scale \<in> {''major'', ''minor'', ''dorian'', ''mixolydian''} \<Longrightarrow>
     length (spec_pool cp scale) = 7 * length cp"
  using get_scale_degrees_known [of scale]
  by (induction cp) (simp_all add: spec_pool_def spec_harmonicNotes_def)

lemma spec_indexOf_nonneg: "0 \<le> spec_indexOf l xs"
  by (induction xs) simp_all

lemma list_index_spec:
  "l \<in> set xs \<Longrightarrow> list_index (map Str xs) (Str l) = Inr (spec_indexOf l xs)"
  by (induction xs) auto

lemma harmony_event_spec:
  assumes e: "melody_entry e" and pool: "pool \<noteq> []" and off: "0 \<le> offset"
  shows "harmony_event pool offset e = Inr (spec_harmony_event pool offset e)"
proof (cases e rule: melody_entry.cases)
  case (1 l)
  then show ?thesis by (simp add: harmony_event_def)
next
  case (2 l d)
  with e have l: "l \<in> set scale_notes" by simp
  let ?k = "(spec_indexOf l scale_notes + offset) mod int (length pool)"
  have len: "0 < int (length pool)" using pool by simp
  have k: "0 \<le> ?k" "?k < int (length pool)"
    using len by simp_all
  have "subscript pool ?k = Inr (pool ! nat ?k)"
    using k by (rule subscript_in_range)
  then show ?thesis
    using 2 len by (simp add: harmony_event_def subscript_in_range list_index_spec [OF l] py_mod_def)
qed (use e in simp_all)

lemma spec_harmony_event_duration: "\<exists>x. spec_harmony_event pool offset e = Tup [x, Flt (1 / 4)]"
  by (cases "(pool, offset, e)" rule: spec_harmony_event.cases) simp_all

lemma generate_harmony_eq_spec:
  assumes "cp \<noteq> []" and "set cp \<subseteq> fst ` set chord_symbols_to_degrees"
    and "scale \<in> {''major'', ''minor'', ''dorian'', ''mixolydian''}"
    and "list_all melody_entry melody"
  shows "generate_harmony melody cp scale = Inr (spec_harmony melody cp scale)"
proof -
  let ?pool = "spec_pool cp scale"
  have "length ?pool = 7 * length cp"
    using assms(3) by (rule length_spec_pool)
  with assms(1) have pool: "?pool \<noteq> []" by auto
  have pass: "emap (harmony_event ?pool offset) melody = Inr (map (spec_harmony_event ?pool offset) melody)"
    if "0 \<le> offset" for offset
  proof (rule emap_total)
    fix e assume "e \<in> set melody"
    with assms(4) have "melody_entry e" by (simp add: list_all_iff)
    then show "harmony_event ?pool offset e = Inr (spec_harmony_event ?pool offset e)"
      using pool that by (rule harmony_event_spec)
  qed
  show ?thesis
    by (simp add: generate_harmony_def pool_spec [OF assms(2)] pass spec_harmony_def
        flip: spec_pool_def)
qed

text \<open>
  C6. For every melody (a list of bare letters and (letter, duration) pairs
  with letters of the alphabet) and every non-empty progression of chord
  symbols over a known scale, \<^verbatim>\<open>generate_harmony\<close> returns the offset-2 pass over
  the whole melody followed by the offset-4 pass, each pair contributing
  (pool[(indexOf(letter) + offset) mod len(pool)], 0.25) with the pool
  concatenated from the harmonic notes of the progression's symbols. The
  output is twice as long as the melody and every duration in it is 0.25.
\<close>

theorem generate_harmony_refines_spec:
  assumes "cp \<noteq> []" and "set cp \<subseteq> fst ` set chord_symbols_to_degrees"
    and "scale \<in> {''major'', ''minor'', ''dorian'', ''mixolydian''}"
    and "list_all melody_entry melody"
  shows "generate_harmony melody cp scale = Inr (spec_harmony melody cp scale) \<and>
         length (spec_harmony melody cp scale) = 2 * length melody \<and>
         (\<forall>h \<in> set (spec_harmony melody cp scale). \<exists>x. h = Tup [x, Flt (1 / 4)])"
proof -
  have "generate_harmony melody cp scale = Inr (spec_harmony melody cp scale)"
    using assms by (rule generate_harmony_eq_spec)
  moreover have "length (spec_harmony melody cp scale) = 2 * length melody"
    by (simp add: spec_harmony_def)
  moreover have "\<forall>h \<in> set (spec_harmony melody cp scale). \<exists>x. h = Tup [x, Flt (1 / 4)]"
    using spec_harmony_event_duration by (auto simp: spec_harmony_def)
  ultimately show ?thesis by blast
qed

theorem generate_harmony_refines_spec_witness:
  "generate_harmony [Str ''C'', Tup [Str ''D'', Flt 2]] [''I'', ''IV'', ''V''] ''minor''
     = Inr [Tup [Str ''C'', Flt (1 / 4)], Tup [Str ''A'', Flt (1 / 4)],
            Tup [Str ''C'', Flt (1 / 4)], Tup [Str ''D'', Flt (1 / 4)]]"
proof -
  have symbols: "set [''I'', ''IV'', ''V''] \<subseteq> fst ` set chord_symbols_to_degrees"
    by (simp add: chord_symbols_to_degrees_def)
  have entries: "list_all melody_entry [Str ''C'', Tup [Str ''D'', Flt 2]]"
    by (simp add: scale_notes_def)
  have "spec_harmony [Str ''C'', Tup [Str ''D'', Flt 2]] [''I'', ''IV'', ''V''] ''minor''
     = [Tup [Str ''C'', Flt (1 / 4)], Tup [Str ''A'', Flt (1 / 4)],
        Tup [Str ''C'', Flt (1 / 4)], Tup [Str ''D'', Flt (1 / 4)]]"
    by code_simp
  then show ?thesis
    using generate_harmony_refines_spec [OF _ symbols _ entries, of "''minor''"]
    by simp
qed

section \<open>The orchestrated pipeline\<close>

lemma generate_chord_progression_Inr:
  "\<exists>cp g1. generate_chord_progression rb scale g = Inr (cp, g1) \<and> cp \<in> set chord_progressions"
proof -
  have "chord_progressions \<noteq> []" by (simp add: chord_progressions_def)
  then show ?thesis
    unfolding generate_chord_progression_def using choice_mem [of chord_progressions rb g] by blast
qed

lemma normalize_melody_pair: "melody_pair e \<Longrightarrow> normalize e = e \<and> letter_duration_pair e \<and> melody_entry e"
  by (cases e rule: melody_pair.cases) (simp_all add: normalize_def)

lemma normalize_pairs:
  "list_all melody_pair xs \<Longrightarrow>
     map normalize xs = xs \<and> list_all letter_duration_pair xs \<and> list_all melody_entry xs"
  by (induction xs) (simp_all add: normalize_melody_pair)

lemma generate_music_steps_known:
  assumes known: "scale \<in> {''major'', ''minor'', ''dorian'', ''mixolydian''}"
  shows "\<exists>cp g1 m0 g2 h b.
           generate_chord_progression rb scale g = Inr (cp, g1) \<and>
           generate_melody rb cp scale g1 = Inr (m0, g2) \<and>
           generate_harmony (map normalize m0) cp scale = Inr h \<and>
           generate_bass (map normalize m0) scale = Inr b"
proof -
  obtain cp g1 where c: "generate_chord_progression rb scale g = Inr (cp, g1)"
    and cp: "cp \<in> set chord_progressions"
    using generate_chord_progression_Inr [of rb scale g] by blast
  have cpok: "cp \<noteq> []" "set cp \<subseteq> fst ` set chord_symbols_to_degrees"
    using catalog_progression [OF cp] by simp_all
  obtain d rest g2 where m: "generate_melody rb cp scale g1 = Inr (Str (scale_notes ! nat (d mod 7)) # rest, g2)"
    and rest: "list_all melody_pair rest"
    using generate_melody_general [OF cpok known, of rb g1] by blast
  let ?m0 = "Str (scale_notes ! nat (d mod 7)) # rest"
  let ?first = "Tup [Str (scale_notes ! nat (d mod 7)), Flt duration]"
  have n: "map normalize ?m0 = ?first # rest"
    using normalize_pairs [OF rest] by (simp add: normalize_def)
  have letter: "scale_notes ! nat (d mod 7) \<in> set scale_notes"
    by (rule scale_notes_nth_mem) simp_all
  have pairs: "list_all letter_duration_pair (?first # rest)"
    using normalize_pairs [OF rest] by simp
  have entries: "list_all melody_entry (?first # rest)"
    using normalize_pairs [OF rest] letter by simp
  have h: "generate_harmony (map normalize ?m0) cp scale = Inr (spec_harmony (?first # rest) cp scale)"
    unfolding n using cpok known entries by (rule generate_harmony_eq_spec)
  have b: "generate_bass (map normalize ?m0) scale = Inr (?first # rest)"
    unfolding n generate_bass_def using pairs by (rule emap_bass_event_pairs)
  show ?thesis using c m h b by blast
qed

text \<open>
  C7. Whichever step of \<^verbatim>\<open>generate_music\<close> fails (the choice of the progression,
  the melody, the harmony or the bass), the call returns \<^verbatim>\<open>None, None, None\<close>:
  nothing of what the earlier steps produced is returned. When no step fails it
  returns the normalised melody, the harmony and the bass. There is no third
  outcome.
\<close>

theorem generate_music_all_or_nothing:
  "(generate_chord_progression rb scale g = Inl e \<longrightarrow>
      generate_music rb scale g = (None, None, None)) \<and>
   (generate_chord_progression rb scale g = Inr (cp, g1) \<longrightarrow>
      (generate_melody rb cp scale g1 = Inl e \<longrightarrow>
         generate_music rb scale g = (None, None, None)) \<and>
      (generate_melody rb cp scale g1 = Inr (m0, g2) \<longrightarrow>
         (generate_harmony (map normalize m0) cp scale = Inl e \<longrightarrow>
            generate_music rb scale g = (None, None, None)) \<and>
         (generate_harmony (map normalize m0) cp scale = Inr h \<longrightarrow>
            (generate_bass (map normalize m0) scale = Inl e \<longrightarrow>
               generate_music rb scale g = (None, None, None)) \<and>
            (generate_bass (map normalize m0) scale = Inr b \<longrightarrow>
               generate_music rb scale g = (Some (map normalize m0), Some h, Some b))))) \<and>
   (generate_music rb scale g = (None, None, None) \<or>
    (\<exists>m h b. generate_music rb scale g = (Some m, Some h, Some b)))"
  by (auto simp: generate_music_def generate_music_body_def split: sum.splits prod.splits)

lemma generate_melody_unknown:
  "scale \<notin> {''major'', ''minor'', ''dorian'', ''mixolydian''} \<Longrightarrow>
     generate_melody rb cp scale g = Inl IndexError"
  by (simp add: generate_melody_def get_scale_degrees_unknown choice_Nil)

theorem generate_music_all_or_nothing_witness:
  "generate_music lcg ''lydian'' 0 = (None, None, None) \<and>
   (\<exists>m h b. generate_music lcg ''minor'' 0 = (Some m, Some h, Some b))"
proof -
  obtain cp g1 where c: "generate_chord_progression lcg ''lydian'' 0 = Inr (cp, g1)"
    using generate_chord_progression_Inr [of lcg "''lydian''" 0] by blast
  have "generate_melody lcg cp ''lydian'' g1 = Inl IndexError"
    by (rule generate_melody_unknown) simp
  with c have fails: "generate_music lcg ''lydian'' 0 = (None, None, None)"
    using generate_music_all_or_nothing [of lcg "''lydian''" 0 IndexError cp g1] by simp
  obtain cp' g1' m0 g2 h b where
    "generate_chord_progression lcg ''minor'' 0 = Inr (cp', g1')"
    "generate_melody lcg cp' ''minor'' g1' = Inr (m0, g2)"
    "generate_harmony (map normalize m0) cp' ''minor'' = Inr h"
    "generate_bass (map normalize m0) ''minor'' = Inr b"
    using generate_music_steps_known [of "''minor''" lcg 0] by auto
  then have "generate_music lcg ''minor'' 0 = (Some (map normalize m0), Some h, Some b)"
    using generate_music_all_or_nothing [of lcg "''minor''" 0 _ cp' g1' m0 g2 h b] by simp
  with fails show ?thesis by blast
qed

text \<open>
  C10. For a scale name that is none of the four registered ones the degree
  list is empty, the first random draw of the melody raises IndexError, so the
  body of \<^verbatim>\<open>generate_music\<close> fails with it, and the handler returns
  \<^verbatim>\<open>None, None, None\<close> instead of letting the exception through.
\<close>

theorem generate_music_unknown_scale:
  assumes "scale \<notin> {''major'', ''minor'', ''dorian'', ''mixolydian''}"
  shows "get_scale_degrees scale = [] \<and>
         choice rb (get_scale_degrees scale) g' = Inl IndexError \<and>
         generate_melody rb cp scale g' = Inl IndexError \<and>
         generate_music_body rb scale g = Inl IndexError \<and>
         generate_music rb scale g = (None, None, None)"
proof -
  obtain cp0 g1 where c: "generate_chord_progression rb scale g = Inr (cp0, g1)"
    using generate_chord_progression_Inr [of rb scale g] by blast
  have body: "generate_music_body rb scale g = Inl IndexError"
    using c by (simp add: generate_music_body_def generate_melody_unknown [OF assms])
  then have "generate_music rb scale g = (None, None, None)"
    by (simp add: generate_music_def)
  with body show ?thesis
    using assms by (simp add: get_scale_degrees_unknown choice_Nil generate_melody_unknown)
qed

theorem generate_music_unknown_scale_witness:
  "get_scale_degrees ''lydian'' = [] \<and>
   generate_melody lcg [''I'', ''IV'', ''V''] ''lydian'' 3 = Inl IndexError \<and>
   generate_music lcg ''lydian'' 0 = (None, None, None)"
  using generate_music_unknown_scale [of "''lydian''" lcg 3 "[''I'', ''IV'', ''V'']" 0]
  by simp

end
